theory Spec2Isabelle
  imports Complex_Main "HOL-Library.AList"
begin

section \<open>JavaScript values as the handlers of server.js see them\<close>

text \<open>
  The request body is what \<open>bodyParser.json()\<close> hands to the route: a parsed JSON
  value. The handlers of \<open>server.js\<close> are duck-typed, so the model keeps every JSON
  value, together with \<open>undefined\<close> (a property that is not there) and \<open>NaN\<close>
  (arithmetic on \<open>undefined\<close>).

  A number is \<open>NaN\<close>, an infinity (JSON \<open>1e999\<close> parses to \<open>Infinity\<close>) or a
  finite number, an exact rational: the rounding and the overflow of IEEE doubles are
  outside the model. An object is the list of its own properties in enumeration order,
  the first binding of a name being the one that counts.
\<close>

datatype jsnum = NaN | Fin rat | PosInf | NegInf

datatype js =
    JUndefined
  | JNull
  | JBool bool
  | JNum jsnum
  | JStr string
  | JArr "js list"
  | JObj "(string \<times> js) list"

text \<open>A thrown \<open>TypeError\<close>, or the rejection of a promise of the gateway with its message.\<close>

datatype failure = TypeError | Rejected string

fun andThen :: "failure + 'a \<Rightarrow> ('a \<Rightarrow> failure + 'b) \<Rightarrow> failure + 'b" where
  "andThen (Inl e) f = Inl e"
| "andThen (Inr x) f = f x"

fun map_result :: "('a \<Rightarrow> failure + 'b) \<Rightarrow> 'a list \<Rightarrow> failure + 'b list" where
  "map_result f [] = Inr []"
| "map_result f (x # xs) =
     andThen (f x) (\<lambda>y. andThen (map_result f xs) (\<lambda>ys. Inr (y # ys)))"

text \<open>What the runtime and the collaborators of the handlers supply:
  \<^item> \<open>numberToString\<close> and \<open>stringToNumber\<close>: the engine's conversions between numbers
    and strings, left open;
  \<^item> \<open>date_now\<close>: the value of \<open>Date.now()\<close> for this request;
  \<^item> \<open>firebase_get\<close>: how the promise of \<open>firebaseService.get(key)\<close> settles;
  \<^item> \<open>firebase_storeRaw\<close>: how the promise of \<open>firebaseService.storeRaw(id, record)\<close>
    settles (\<open>None\<close>: fulfilled).\<close>

record env =
  numberToString :: "rat \<Rightarrow> string"
  stringToNumber :: "string \<Rightarrow> jsnum"
  date_now :: int
  firebase_get :: "string \<Rightarrow> failure + js"
  firebase_storeRaw :: "js \<Rightarrow> js \<Rightarrow> failure option"

subsection \<open>Truthiness and property access\<close>

text \<open>\<open>!v\<close> is \<open>\<not> truthy v\<close>; \<open>a || b\<close> is \<open>if truthy a then a else b\<close>.\<close>

fun truthy :: "js \<Rightarrow> bool" where
  "truthy JUndefined = False"
| "truthy JNull = False"
| "truthy (JBool b) = b"
| "truthy (JNum NaN) = False"
| "truthy (JNum (Fin r)) = (r \<noteq> 0)"
| "truthy (JNum PosInf) = True"
| "truthy (JNum NegInf) = True"
| "truthy (JStr s) = (s \<noteq> [])"
| "truthy (JArr xs) = True"
| "truthy (JObj kvs) = True"

text \<open>\<open>v.name\<close> for the names the handlers read (\<open>flag\<close>, \<open>location\<close>, \<open>longitude\<close>,
  \<open>latitude\<close>, \<open>accuracy\<close>, \<open>devices\<close>, \<open>distance\<close>, \<open>id\<close>, \<open>multi\<close>), none of
  which a prototype or an array defines: an own property of an object or \<open>undefined\<close>.
  On \<open>null\<close> and \<open>undefined\<close> the access throws.\<close>

fun field :: "js \<Rightarrow> string \<Rightarrow> js" where
  "field (JObj kvs) name = (case map_of kvs name of Some v \<Rightarrow> v | None \<Rightarrow> JUndefined)"
| "field v name = JUndefined"

fun nullish :: "js \<Rightarrow> bool" where
  "nullish JUndefined = True"
| "nullish JNull = True"
| "nullish v = False"

definition member :: "js \<Rightarrow> string \<Rightarrow> failure + js" where
  "member v name = (if nullish v then Inl TypeError else Inr (field v name))"

fun isArray :: "js \<Rightarrow> bool" where
  "isArray (JArr xs) = True"
| "isArray v = False"

fun isObject :: "js \<Rightarrow> bool" where
  "isObject (JArr xs) = True"
| "isObject (JObj kvs) = True"
| "isObject v = False"

subsection \<open>Conversions and the operators \<open>+\<close> and \<open>*\<close>\<close>

text \<open>An object parsed from JSON that has an own property \<open>toString\<close> cannot be converted
  to a primitive (the property is not callable, and \<open>Object.prototype.valueOf\<close> returns
  the object): the conversion throws. An array is joined, so it throws when an element
  does.\<close>

fun unprintable :: "js \<Rightarrow> bool" where
  "unprintable (JObj kvs) = (''toString'' \<in> fst ` set kvs)"
| "unprintable (JArr xs) = (\<exists>x \<in> set xs. unprintable x)"
| "unprintable v = False"

fun join :: "string list \<Rightarrow> string" where
  "join [] = []"
| "join [s] = s"
| "join (s # t # ss) = s @ '','' @ join (t # ss)"

fun to_string :: "env \<Rightarrow> js \<Rightarrow> string" where
  "to_string E JUndefined = ''undefined''"
| "to_string E JNull = ''null''"
| "to_string E (JBool b) = (if b then ''true'' else ''false'')"
| "to_string E (JNum NaN) = ''NaN''"
| "to_string E (JNum (Fin r)) = numberToString E r"
| "to_string E (JNum PosInf) = ''Infinity''"
| "to_string E (JNum NegInf) = ''-Infinity''"
| "to_string E (JStr s) = s"
| "to_string E (JArr xs) =
     join (map (\<lambda>x. if nullish x then [] else to_string E x) xs)"
| "to_string E (JObj kvs) = ''[object Object]''"

definition template_string :: "env \<Rightarrow> js \<Rightarrow> failure + string" where
  "template_string E v = (if unprintable v then Inl TypeError else Inr (to_string E v))"

fun to_primitive :: "env \<Rightarrow> js \<Rightarrow> js" where
  "to_primitive E (JArr xs) = JStr (to_string E (JArr xs))"
| "to_primitive E (JObj kvs) = JStr (to_string E (JObj kvs))"
| "to_primitive E v = v"

fun to_number :: "env \<Rightarrow> js \<Rightarrow> jsnum" where
  "to_number E JUndefined = NaN"
| "to_number E JNull = Fin 0"
| "to_number E (JBool b) = Fin (if b then 1 else 0)"
| "to_number E (JNum n) = n"
| "to_number E (JStr s) = stringToNumber E s"
| "to_number E v = stringToNumber E (to_string E v)"

text \<open>\<open>+\<close> and \<open>*\<close> on numbers: \<open>NaN\<close> is absorbing, opposite infinities add up to
  \<open>NaN\<close>, and an infinity times zero is \<open>NaN\<close>.\<close>

fun num_add :: "jsnum \<Rightarrow> jsnum \<Rightarrow> jsnum" where
  "num_add (Fin a) (Fin b) = Fin (a + b)"
| "num_add NaN y = NaN"
| "num_add x NaN = NaN"
| "num_add PosInf NegInf = NaN"
| "num_add NegInf PosInf = NaN"
| "num_add PosInf y = PosInf"
| "num_add NegInf y = NegInf"
| "num_add (Fin a) y = y"

fun signed_inf :: "bool \<Rightarrow> jsnum" where
  "signed_inf positive = (if positive then PosInf else NegInf)"

fun num_mul :: "jsnum \<Rightarrow> jsnum \<Rightarrow> jsnum" where
  "num_mul (Fin a) (Fin b) = Fin (a * b)"
| "num_mul NaN y = NaN"
| "num_mul x NaN = NaN"
| "num_mul PosInf PosInf = PosInf"
| "num_mul PosInf NegInf = NegInf"
| "num_mul NegInf PosInf = NegInf"
| "num_mul NegInf NegInf = PosInf"
| "num_mul PosInf (Fin b) = (if b = 0 then NaN else signed_inf (0 < b))"
| "num_mul NegInf (Fin b) = (if b = 0 then NaN else signed_inf (b < 0))"
| "num_mul (Fin a) PosInf = (if a = 0 then NaN else signed_inf (0 < a))"
| "num_mul (Fin a) NegInf = (if a = 0 then NaN else signed_inf (a < 0))"

text \<open>\<open>x <= y\<close> on numbers: false as soon as one of them is \<open>NaN\<close>.\<close>

fun num_le :: "jsnum \<Rightarrow> jsnum \<Rightarrow> bool" where
  "num_le (Fin a) (Fin b) = (a \<le> b)"
| "num_le NaN y = False"
| "num_le x NaN = False"
| "num_le NegInf y = True"
| "num_le x PosInf = True"
| "num_le PosInf y = False"
| "num_le x NegInf = False"

fun isString :: "js \<Rightarrow> bool" where
  "isString (JStr s) = True"
| "isString v = False"

definition js_add :: "env \<Rightarrow> js \<Rightarrow> js \<Rightarrow> failure + js" where
  "js_add E a b =
     (if unprintable a \<or> unprintable b then Inl TypeError
      else let pa = to_primitive E a; pb = to_primitive E b
           in if isString pa \<or> isString pb
              then Inr (JStr (to_string E pa @ to_string E pb))
              else Inr (JNum (num_add (to_number E pa) (to_number E pb))))"

definition js_mul :: "env \<Rightarrow> js \<Rightarrow> js \<Rightarrow> failure + js" where
  "js_mul E a b =
     (if unprintable a \<or> unprintable b then Inl TypeError
      else Inr (JNum (num_mul (to_number E a) (to_number E b))))"

section \<open>The two lodash functions the handlers call\<close>

text \<open>The decimal name of an array index, as a property name.\<close>

function show_nat :: "nat \<Rightarrow> string" where
  "show_nat n =
     (if n < 10 then [char_of (48 + n)]
      else show_nat (n div 10) @ [char_of (48 + n mod 10)])"
  by pat_completeness auto
termination
  by (relation "measure id") auto

text \<open>The names of array indices: the canonical decimal numerals up to \<open>2^32 - 2\<close>. An
  object enumerates its properties with these names first, in ascending order, and then
  the others in the order of their creation.\<close>

definition digit :: "char \<Rightarrow> bool" where
  "digit c = (48 \<le> (of_char c :: nat) \<and> (of_char c :: nat) \<le> 57)"

definition digits_value :: "string \<Rightarrow> nat" where
  "digits_value s = foldl (\<lambda>n c. 10 * n + ((of_char c :: nat) - 48)) 0 s"

definition index_of :: "string \<Rightarrow> nat option" where
  "index_of s =
     (if s \<noteq> [] \<and> list_all digit s \<and> (s = ''0'' \<or> take 1 s \<noteq> ''0'') \<and>
         digits_value s \<le> 4294967294
      then Some (digits_value s) else None)"

text \<open>A new property \<open>k\<close> takes its place in the enumeration order.\<close>

fun insert_prop :: "string \<Rightarrow> js \<Rightarrow> (string \<times> js) list \<Rightarrow> (string \<times> js) list" where
  "insert_prop k v [] = [(k, v)]"
| "insert_prop k v (p # d) =
     (case index_of k of
        None \<Rightarrow> p # insert_prop k v d
      | Some n \<Rightarrow>
          (case index_of (fst p) of
             None \<Rightarrow> (k, v) # p # d
           | Some m \<Rightarrow> if n < m then (k, v) # p # d else p # insert_prop k v d))"

definition enumeration :: "(string \<times> js) list \<Rightarrow> (string \<times> js) list" where
  "enumeration kvs = foldl (\<lambda>d kv. insert_prop (fst kv) (snd kv) d) [] (AList.clearjunk kvs)"

text \<open>The own enumerable properties of an object or array, as \<open>baseMerge\<close> walks them
  (\<open>clearjunk\<close> keeps the first binding of each name).\<close>

fun own_props :: "js \<Rightarrow> (string \<times> js) list" where
  "own_props (JObj kvs) = enumeration kvs"
| "own_props (JArr xs) = zip (map show_nat [0..<length xs]) xs"
| "own_props v = []"

text \<open>\<open>_.map(collection, iteratee)\<close> calls the iteratee on the elements of an array, on
  nothing for \<open>null\<close>, \<open>undefined\<close>, a number or a boolean, on the characters of a
  string, on the indices below \<open>length\<close> of an object whose \<open>length\<close> is a valid array
  length (\<open>isArrayLike\<close>), and on the property values of any other object.
  \<open>map_items\<close> is the list of values the iteratee is called on, in order.\<close>

definition isLength :: "js \<Rightarrow> bool" where
  "isLength v =
     (case v of
        JNum (Fin r) \<Rightarrow> - 1 < r \<and> of_int \<lfloor>r\<rfloor> = r \<and> r \<le> 9007199254740991
      | _ \<Rightarrow> False)"

fun map_items :: "js \<Rightarrow> js list" where
  "map_items (JArr xs) = xs"
| "map_items (JStr s) = map (\<lambda>c. JStr [c]) s"
| "map_items (JObj kvs) =
     (if isLength (field (JObj kvs) ''length'')
      then (case field (JObj kvs) ''length'' of
              JNum (Fin r) \<Rightarrow> map (\<lambda>i. field (JObj kvs) (show_nat i)) [0..<nat \<lfloor>r\<rfloor>]
            | _ \<Rightarrow> [])
      else map snd (enumeration kvs))"
| "map_items v = []"

text \<open>\<open>_.defaultsDeep(object, ...sources)\<close>: each source in turn gives the destination
  the properties it lacks (or holds as \<open>undefined\<close>), in the source's order; where both
  hold an object under a name, the source's object is merged into the destination's in
  the same way; any other value of the destination stays.

  The merge reads \<open>object[key]\<close>, which for a name that \<open>Object.prototype\<close> defines
  (\<open>inherited\<close>) is the inherited member and not \<open>undefined\<close>: a plain destination that
  has no own property of such a name is given none. (What lodash then does to the
  inherited member itself when the source value is an object reaches beyond the request
  and is not modelled; which of \<open>__proto__\<close> and \<open>constructor\<close> are left out varies
  with the release of lodash, and nothing below depends on them.) A value taken from a
  source is copied by the same merge into an empty object or array (\<open>copy\<close>), so a
  copy lacks these names at every depth.

  The destination is a plain object. A destination value that is an array is left as it
  is: in the handlers the only destination values a source value meets are the
  \<open>location\<close> object literal and its \<open>accuracy\<close>, the result of a \<open>+\<close>.\<close>

definition inherited :: "string \<Rightarrow> bool" where
  "inherited name =
     (name \<in> set [''constructor'', ''hasOwnProperty'', ''isPrototypeOf'',
                   ''propertyIsEnumerable'', ''toLocaleString'', ''toString'', ''valueOf'',
                   ''__proto__'', ''__defineGetter__'', ''__defineSetter__'',
                   ''__lookupGetter__'', ''__lookupSetter__''])"

definition props_size :: "(string \<times> js) list \<Rightarrow> nat" where
  "props_size kvs = sum_list (map (\<lambda>kv. Suc (size (snd kv))) kvs)"

function (sequential)
  merge_props :: "(string \<times> js) list \<Rightarrow> (string \<times> js) list \<Rightarrow> (string \<times> js) list"
  and copy :: "js \<Rightarrow> js"
where
  "merge_props d [] = d"
| "merge_props d ((k, v) # rest) =
     merge_props
       (case map_of d k of
          None \<Rightarrow> if inherited k then d else insert_prop k (copy v) d
        | Some JUndefined \<Rightarrow> AList.update k (copy v) d
        | Some (JObj d') \<Rightarrow>
            (if isObject v then AList.update k (JObj (merge_props d' (own_props v))) d
             else d)
        | Some ov \<Rightarrow> d)
       rest"
| "copy (JObj kvs) = JObj (merge_props [] (own_props (JObj kvs)))"
| "copy (JArr xs) = JArr (map copy xs)"
| "copy v = v"
  by pat_completeness auto

termination
proof -
  have zip_le: "props_size (zip ks xs) \<le> size_list size xs" for ks and xs :: "js list"
  proof (induction xs arbitrary: ks)
    case Nil
    then show ?case by (simp add: props_size_def)
  next
    case (Cons x xs)
    show ?case
    proof (cases ks)
      case Nil
      then show ?thesis by (simp add: props_size_def)
    next
      case (Cons k ks')
      with Cons.IH [of ks'] show ?thesis by (simp add: props_size_def)
    qed
  qed
  have obj_le: "props_size kvs \<le> size_list (size_prod (\<lambda>_. 0) size) kvs" for kvs
    by (induction kvs) (auto simp: props_size_def)
  have junk_le: "props_size (AList.clearjunk kvs) \<le> props_size kvs" for kvs
    unfolding props_size_def
  proof (induction kvs rule: AList.clearjunk.induct)
    case 1
    show ?case by simp
  next
    case (2 p ps)
    have "(\<Sum>kv\<leftarrow>AList.delete (fst p) ps. Suc (size (snd kv))) \<le> (\<Sum>kv\<leftarrow>ps. Suc (size (snd kv)))"
      unfolding AList.delete_eq by (rule sum_list_filter_le_nat)
    with 2 show ?case by simp
  qed
  have ins: "props_size (insert_prop k v d) = Suc (size v) + props_size d" for k v d
    by (induction d) (auto simp: props_size_def split: option.splits)
  have fold_ins: "props_size (foldl (\<lambda>d kv. insert_prop (fst kv) (snd kv) d) acc xs) =
                  props_size acc + props_size xs" for acc xs
    by (induction xs arbitrary: acc) (auto simp: ins, auto simp: props_size_def)
  have enum_le: "props_size (enumeration kvs) \<le> props_size kvs" for kvs
    using junk_le [of kvs] by (simp add: enumeration_def fold_ins, simp add: props_size_def)
  have own_less: "props_size (own_props v) < size v" if "isObject v" for v
  proof (cases v)
    case (JArr xs)
    then show ?thesis using zip_le [of "map show_nat [0..<length xs]" xs] by simp
  next
    case (JObj kvs)
    then show ?thesis using enum_le [of kvs] obj_le [of kvs] by simp
  qed (use that in simp_all)
  show ?thesis
  proof (relation "measure (\<lambda>x. case x of Inl (d, s) \<Rightarrow> props_size s | Inr v \<Rightarrow> size v)",
      goal_cases)
    case 1
    show ?case by simp
  next
    case (2 d k v rest)
    then show ?case by (simp add: props_size_def)
  next
    case (3 d k v rest x2)
    then show ?case by (simp add: props_size_def)
  next
    case (4 d k v rest x2 x7)
    then show ?case using own_less [of v] by (simp add: props_size_def)
  next
    case (5 d k v rest)
    then show ?case by (simp add: props_size_def)
  next
    case (6 kvs)
    show ?case using own_less [of "JObj kvs"] by simp
  next
    case (7 xs x)
    then show ?case using size_list_estimation' [of x xs "size x" size] by simp
  qed
qed

fun merge_source :: "js \<Rightarrow> js \<Rightarrow> js" where
  "merge_source (JObj d) s = (if isObject s then JObj (merge_props d (own_props s)) else JObj d)"
| "merge_source object s = object"

definition defaultsDeep :: "js \<Rightarrow> js list \<Rightarrow> js" where
  "defaultsDeep object sources = foldl merge_source object sources"

section \<open>The route \<open>POST /location\<close>\<close>

text \<open>What the caller receives:
  \<^item> \<open>Sent200\<close>: \<open>res.status(200).send()\<close>;
  \<^item> \<open>LocationInvalid\<close>: status 400, \<open>Location data is invalid\<close>;
  \<^item> \<open>DevicesInvalid\<close>: status 400, \<open>Devices data is invalid\<close>;
  \<^item> \<open>FlagEmpty f\<close>: status 500, \<open>Error while updating data: flag f is empty\<close>;
  \<^item> \<open>UpdateError e\<close>: status 500, \<open>Error while updating data:\<close> and the message of \<open>e\<close>;
  \<^item> \<open>UnknownError\<close>: status 500, \<open>Unknown Error\<close>, from the last error middleware,
    which receives what a route throws.\<close>

datatype reply =
    Sent200
  | LocationInvalid
  | DevicesInvalid
  | FlagEmpty string
  | UpdateError failure
  | UnknownError

fun status :: "reply \<Rightarrow> nat" where
  "status Sent200 = 200"
| "status LocationInvalid = 400"
| "status DevicesInvalid = 400"
| "status (FlagEmpty f) = 500"
| "status (UpdateError e) = 500"
| "status UnknownError = 500"

text \<open>What one request does:
  \<^item> \<open>reads\<close>: the keys of the calls of \<open>firebaseService.get\<close>, in order;
  \<^item> \<open>writes\<close>: the calls of \<open>firebaseService.storeRaw(id, record)\<close>, in order;
  \<^item> \<open>reply\<close>: the first response sent, the one the caller receives (a later
    \<open>res.json\<close> on the same response throws and sends nothing);
  \<^item> \<open>derived\<close>: the records \<open>calculateDerived\<close> is scheduled with, if it is.\<close>

record outcome =
  reads :: "string list"
  writes :: "(js \<times> js) list"
  reply :: "reply option"
  derived :: "js list option"

definition timestamp_of :: "env \<Rightarrow> js" where
  "timestamp_of E = JNum (Fin (of_int (date_now E)))"

text \<open>\<open>location.accuracy || 20\<close>; the location is known not to be \<open>null\<close>.\<close>

definition baseAccuracy :: "js \<Rightarrow> js" where
  "baseAccuracy location =
     (if truthy (field location ''accuracy'') then field location ''accuracy''
      else JNum (Fin 20))"

definition baseLocationTimestamp :: "env \<Rightarrow> js \<Rightarrow> js" where
  "baseLocationTimestamp E location =
     JObj [(''timestamp'', timestamp_of E), (''location'', location)]"

text \<open>Lines 274 and 315, the same on both paths:
  \<open>_.defaultsDeep({}, {location: {accuracy: accuracy}, id: device.id}, baseLocationTimestamp)\<close>.\<close>

definition locationTimestamp :: "env \<Rightarrow> js \<Rightarrow> js \<Rightarrow> js \<Rightarrow> js" where
  "locationTimestamp E location accuracy device_id =
     defaultsDeep (JObj [])
       [JObj [(''location'', JObj [(''accuracy'', accuracy)]), (''id'', device_id)],
        baseLocationTimestamp E location]"

text \<open>The iteratee of the first \<open>_.map\<close> of the direct path (lines 272 to 276).\<close>

definition direct_locationTimestamp :: "env \<Rightarrow> js \<Rightarrow> js \<Rightarrow> failure + js" where
  "direct_locationTimestamp E location device =
     andThen (member device ''distance'') (\<lambda>distance.
     andThen (js_add E (baseAccuracy location) distance) (\<lambda>accuracy.
     andThen (member device ''id'') (\<lambda>device_id.
       Inr (locationTimestamp E location accuracy device_id))))"

text \<open>The iteratee of the first \<open>_.map\<close> of the flag path (lines 313 to 317).\<close>

definition flag_locationTimestamp :: "env \<Rightarrow> js \<Rightarrow> js \<Rightarrow> failure + js" where
  "flag_locationTimestamp E location device =
     andThen (member device ''distance'') (\<lambda>distance.
     andThen (member location ''multi'') (\<lambda>multi.
     andThen (js_mul E distance multi) (\<lambda>product.
     andThen (js_add E (baseAccuracy location) product) (\<lambda>accuracy.
     andThen (member device ''id'') (\<lambda>device_id.
       Inr (locationTimestamp E location accuracy device_id))))))"

text \<open>The second \<open>_.map\<close> and \<open>Promise.all\<close>, the same on both paths: one \<open>storeRaw\<close>
  for each record whose \<open>id\<close> is truthy, all of them issued before any settles; then
  status 200 and the deferred \<open>calculateDerived\<close>, or status 500 with the message of a
  rejection (of the first rejected call in the list: which rejection wins is a matter of
  timing). \<open>sent\<close> is the response already sent, if any: then no other is sent.
  \<open>res.status(200).send()\<close> sets no header and does not throw on a response already
  sent, so \<open>calculateDerived\<close> is scheduled all the same; \<open>res.status(500).json(...)\<close>
  throws there, in the \<open>catch\<close>, and nothing follows it.\<close>

definition stores :: "js list \<Rightarrow> (js \<times> js) list" where
  "stores locationTimestamps =
     map (\<lambda>lt. (field lt ''id'', lt)) (filter (\<lambda>lt. truthy (field lt ''id'')) locationTimestamps)"

definition rejections :: "env \<Rightarrow> (js \<times> js) list \<Rightarrow> failure list" where
  "rejections E ws = List.map_filter (\<lambda>(i, lt). firebase_storeRaw E i lt) ws"

definition persist :: "env \<Rightarrow> string list \<Rightarrow> reply option \<Rightarrow> js list \<Rightarrow> outcome" where
  "persist E rs sent locationTimestamps =
     (let ws = stores locationTimestamps
      in case rejections E ws of
           [] \<Rightarrow>
             \<lparr>reads = rs, writes = ws,
              reply = (case sent of None \<Rightarrow> Some Sent200 | Some r \<Rightarrow> Some r),
              derived = Some locationTimestamps\<rparr>
         | err # errs \<Rightarrow>
             \<lparr>reads = rs, writes = ws,
              reply = (case sent of None \<Rightarrow> Some (UpdateError err) | Some r \<Rightarrow> Some r),
              derived = None\<rparr>)"

definition respond :: "reply \<Rightarrow> outcome" where
  "respond r = \<lparr>reads = [], writes = [], reply = Some r, derived = None\<rparr>"

text \<open>\<open>handleFlaggedRequest\<close> (lines 297 to 344). After the response for a falsy
  \<open>location\<close> there is no \<open>return\<close>: the callback goes on, and \<open>location.accuracy\<close>
  throws when \<open>location\<close> is \<open>null\<close> or \<open>undefined\<close>. What the callback throws goes to
  the \<open>catch\<close> of line 337, which answers unless an answer was sent. There is no check
  of \<open>devices\<close> on this path.\<close>

definition flag_locationTimestamps :: "env \<Rightarrow> js \<Rightarrow> js \<Rightarrow> failure + js list" where
  "flag_locationTimestamps E body location =
     andThen (member location ''accuracy'') (\<lambda>accuracy.
     andThen (member body ''devices'') (\<lambda>devices.
       map_result (flag_locationTimestamp E location) (map_items devices)))"

definition handleFlaggedRequest :: "env \<Rightarrow> js \<Rightarrow> failure + outcome" where
  "handleFlaggedRequest E body =
     andThen (member body ''flag'') (\<lambda>flag.
     andThen (template_string E flag) (\<lambda>name.
       let key = ''flag/'' @ name
       in case firebase_get E key of
            Inl err \<Rightarrow>
              Inr \<lparr>reads = [key], writes = [], reply = Some (UpdateError err), derived = None\<rparr>
          | Inr location \<Rightarrow>
              (let sent = (if \<not> truthy location then Some (FlagEmpty name) else None)
               in case flag_locationTimestamps E body location of
                    Inl err \<Rightarrow>
                      Inr \<lparr>reads = [key], writes = [],
                           reply = (case sent of None \<Rightarrow> Some (UpdateError err)
                                    | Some r \<Rightarrow> Some r),
                           derived = None\<rparr>
                  | Inr locationTimestamps \<Rightarrow>
                      Inr (persist E [key] sent locationTimestamps))))"

text \<open>The route handler (lines 250 to 295).\<close>

definition location_route :: "env \<Rightarrow> js \<Rightarrow> failure + outcome" where
  "location_route E body =
     andThen (member body ''flag'') (\<lambda>flag.
       if truthy flag then handleFlaggedRequest E body
       else
     andThen (member body ''location'') (\<lambda>location.
       if \<not> truthy location then Inr (respond LocationInvalid)
       else
     andThen (member location ''longitude'') (\<lambda>longitude.
       if \<not> truthy longitude then Inr (respond LocationInvalid)
       else
     andThen (member location ''latitude'') (\<lambda>latitude.
       if \<not> truthy latitude then Inr (respond LocationInvalid)
       else
     andThen (member body ''devices'') (\<lambda>devices.
       if \<not> isArray devices then Inr (respond DevicesInvalid)
       else
     andThen (map_result (direct_locationTimestamp E location) (map_items devices))
       (\<lambda>locationTimestamps. Inr (persist E [] None locationTimestamps)))))))"

text \<open>What the route throws reaches the error middleware of line 417.\<close>

definition post_location :: "env \<Rightarrow> js \<Rightarrow> outcome" where
  "post_location E body =
     (case location_route E body of
        Inl err \<Rightarrow> respond UnknownError
      | Inr out \<Rightarrow> out)"

section \<open>The data model of the specification, and sample data\<close>

text \<open>A device entry as the specification types it, \<open>{ id?: string, distance: number }\<close>,
  and what it calls a non-empty \<open>id\<close>.\<close>

fun isNumber :: "js \<Rightarrow> bool" where
  "isNumber (JNum n) = True"
| "isNumber v = False"

fun isPlainObject :: "js \<Rightarrow> bool" where
  "isPlainObject (JObj kvs) = True"
| "isPlainObject v = False"

definition device_entry :: "js \<Rightarrow> bool" where
  "device_entry d =
     (isPlainObject d \<and> isNumber (field d ''distance'') \<and>
      (field d ''id'' = JUndefined \<or> isString (field d ''id'')))"

definition nonempty_id :: "js \<Rightarrow> bool" where
  "nonempty_id d = (case field d ''id'' of JStr s \<Rightarrow> s \<noteq> [] | _ \<Rightarrow> False)"

text \<open>A base location as the specification types it: an object whose \<open>accuracy\<close> is a
  number or is not there.\<close>

definition base_location :: "js \<Rightarrow> bool" where
  "base_location l =
     (isPlainObject l \<and> (field l ''accuracy'' = JUndefined \<or> isNumber (field l ''accuracy'')))"

text \<open>A sample environment: four flags are stored, \<open>zoneA\<close> with the field
  \<open>multiplier\<close>, \<open>zoneB\<close> with the field \<open>multi\<close>, \<open>zoneC\<close> with \<open>multi\<close> and
  accuracy 0, \<open>zoneD\<close> with \<open>multi\<close> 0; every write succeeds; the clock reads
  1500000000000. Its number conversions are right on the integers written in decimal
  digits.\<close>

definition sample_numberToString :: "rat \<Rightarrow> string" where
  "sample_numberToString r = (if r < 0 then ''-'' else []) @ show_nat (nat \<lfloor>\<bar>r\<bar>\<rfloor>)"

definition sample_stringToNumber :: "string \<Rightarrow> jsnum" where
  "sample_stringToNumber s =
     (if list_all (\<lambda>c. 48 \<le> (of_char c :: nat) \<and> (of_char c :: nat) \<le> 57) s
      then Fin (of_nat (foldl (\<lambda>n c. 10 * n + ((of_char c :: nat) - 48)) 0 s))
      else NaN)"

definition zoneA :: js where
  "zoneA = JObj [(''latitude'', JNum (Fin 9)), (''longitude'', JNum (Fin 9)),
                 (''accuracy'', JNum (Fin 5)), (''multiplier'', JNum (Fin 3))]"

definition zoneB :: js where
  "zoneB = JObj [(''latitude'', JNum (Fin 9)), (''longitude'', JNum (Fin 9)),
                 (''accuracy'', JNum (Fin 5)), (''multi'', JNum (Fin 3))]"

definition zoneC :: js where
  "zoneC = JObj [(''latitude'', JNum (Fin 9)), (''longitude'', JNum (Fin 9)),
                 (''accuracy'', JNum (Fin 0)), (''multi'', JNum (Fin 3))]"

definition zoneD :: js where
  "zoneD = JObj [(''latitude'', JNum (Fin 9)), (''longitude'', JNum (Fin 9)),
                 (''accuracy'', JNum (Fin 5)), (''multi'', JNum (Fin 0))]"

definition sample_get :: "string \<Rightarrow> failure + js" where
  "sample_get key =
     (if key = ''flag/zoneA'' then Inr zoneA
      else if key = ''flag/zoneB'' then Inr zoneB
      else if key = ''flag/zoneC'' then Inr zoneC
      else if key = ''flag/zoneD'' then Inr zoneD
      else Inr JNull)"

definition sample_env :: env where
  "sample_env =
     \<lparr>numberToString = sample_numberToString, stringToNumber = sample_stringToNumber,
      date_now = 1500000000000, firebase_get = sample_get,
      firebase_storeRaw = (\<lambda>i r. None)\<rparr>"

definition device :: "string \<Rightarrow> rat \<Rightarrow> js" where
  "device i x = JObj [(''id'', JStr i), (''distance'', JNum (Fin x))]"

definition direct_report :: "rat \<Rightarrow> rat \<Rightarrow> rat \<Rightarrow> js list \<Rightarrow> js" where
  "direct_report lat lng acc ds =
     JObj [(''location'', JObj [(''latitude'', JNum (Fin lat)), (''longitude'', JNum (Fin lng)),
                               (''accuracy'', JNum (Fin acc))]),
           (''devices'', JArr ds)]"

definition flag_report :: "string \<Rightarrow> js \<Rightarrow> js" where
  "flag_report f devices = JObj [(''flag'', JStr f), (''devices'', devices)]"

text \<open>The accuracies of the records written, in the order of the writes.\<close>

definition accuracies :: "outcome \<Rightarrow> js list" where
  "accuracies out = map (\<lambda>w. field (field (snd w) ''location'') ''accuracy'') (writes out)"

text \<open>The record of a device entry whose distance is a number, over a base location whose
  accuracy is a number or is not there: the two iteratees with the arithmetic done on
  numbers.\<close>

definition direct_record :: "env \<Rightarrow> js \<Rightarrow> js \<Rightarrow> js" where
  "direct_record E L d =
     locationTimestamp E L
       (JNum (num_add (to_number E (baseAccuracy L)) (to_number E (field d ''distance''))))
       (field d ''id'')"

definition flag_record :: "env \<Rightarrow> js \<Rightarrow> js \<Rightarrow> js" where
  "flag_record E L d =
     locationTimestamp E L
       (JNum (num_add (to_number E (baseAccuracy L))
                (num_mul (to_number E (field d ''distance'')) (to_number E (field L ''multi'')))))
       (field d ''id'')"

section \<open>Properties of the model\<close>

subsection \<open>The routes, step by step\<close>

lemma writes_persist: "writes (persist E rs sent lts) = stores lts"
  by (simp add: persist_def Let_def split: list.splits)

lemma reads_persist: "reads (persist E rs sent lts) = rs"
  by (simp add: persist_def Let_def split: list.splits)

lemma truthy_not_nullish: "truthy v \<Longrightarrow> \<not> nullish v"
  by (cases v) auto

lemma truthy_field_not_nullish: "truthy (field v name) \<Longrightarrow> \<not> nullish v"
  by (cases v) auto

lemma direct_route:
  assumes "\<not> truthy (field body ''flag'')"
    and "truthy (field (field body ''location'') ''longitude'')"
    and "truthy (field (field body ''location'') ''latitude'')"
    and "field body ''devices'' = JArr ds"
  shows "location_route E body =
         andThen (map_result (direct_locationTimestamp E (field body ''location'')) ds)
           (\<lambda>lts. Inr (persist E [] None lts))"
proof -
  have l: "\<not> nullish (field body ''location'')" "truthy (field body ''location'')"
    using assms(2) by (cases "field body ''location''"; simp)+
  have b: "\<not> nullish body" using l(2) by (rule truthy_field_not_nullish)
  show ?thesis using assms l b by (simp add: location_route_def member_def)
qed

lemma flag_route:
  assumes "truthy (field body ''flag'')"
    and "template_string E (field body ''flag'') = Inr name"
    and "firebase_get E (''flag/'' @ name) = Inr location"
  shows "location_route E body =
         Inr (let sent = (if \<not> truthy location then Some (FlagEmpty name) else None)
              in case flag_locationTimestamps E body location of
                   Inl err \<Rightarrow>
                     \<lparr>reads = [''flag/'' @ name], writes = [],
                      reply = (case sent of None \<Rightarrow> Some (UpdateError err) | Some r \<Rightarrow> Some r),
                      derived = None\<rparr>
                 | Inr lts \<Rightarrow> persist E [''flag/'' @ name] sent lts)"
proof -
  have b: "\<not> nullish body" using assms(1) by (rule truthy_field_not_nullish)
  show ?thesis using assms b
    by (simp add: location_route_def handleFlaggedRequest_def member_def Let_def split: sum.splits)
qed

lemma flag_locationTimestamps_devices:
  assumes "\<not> nullish body" "\<not> nullish location"
  shows "flag_locationTimestamps E body location =
         map_result (flag_locationTimestamp E location) (map_items (field body ''devices''))"
  using assms by (simp add: flag_locationTimestamps_def member_def)

text \<open>The direct path checks the devices (lines 260 to 265), and an empty sequence passes
  on both paths.\<close>

lemma direct_devices_checked:
  assumes "\<not> truthy (field body ''flag'')"
    and "truthy (field (field body ''location'') ''longitude'')"
    and "truthy (field (field body ''location'') ''latitude'')"
    and "\<not> isArray (field body ''devices'')"
  shows "post_location E body = respond DevicesInvalid"
proof -
  have l: "\<not> nullish (field body ''location'')" "truthy (field body ''location'')"
    using assms(2) by (cases "field body ''location''"; simp)+
  have b: "\<not> nullish body" using l(2) by (rule truthy_field_not_nullish)
  show ?thesis using assms l b by (simp add: post_location_def location_route_def member_def)
qed

lemma direct_no_devices:
  assumes "\<not> truthy (field body ''flag'')"
    and "truthy (field (field body ''location'') ''longitude'')"
    and "truthy (field (field body ''location'') ''latitude'')"
    and "field body ''devices'' = JArr []"
  shows "post_location E body =
         \<lparr>reads = [], writes = [], reply = Some Sent200, derived = Some []\<rparr>"
  by (simp add: post_location_def direct_route [OF assms] persist_def stores_def rejections_def
      List.map_filter_def)

lemma flag_no_devices:
  assumes "truthy (field body ''flag'')"
    and "template_string E (field body ''flag'') = Inr name"
    and "firebase_get E (''flag/'' @ name) = Inr location" and "truthy location"
    and "field body ''devices'' = JArr []"
  shows "post_location E body =
         \<lparr>reads = [''flag/'' @ name], writes = [], reply = Some Sent200, derived = Some []\<rparr>"
proof -
  have b: "\<not> nullish body" using assms(1) by (rule truthy_field_not_nullish)
  have n: "\<not> nullish location" using assms(4) by (rule truthy_not_nullish)
  show ?thesis
    by (simp add: post_location_def flag_route [OF assms(1-3)] assms(4,5)
        flag_locationTimestamps_devices [OF b n] persist_def stores_def rejections_def
        List.map_filter_def)
qed

subsection \<open>The records\<close>

lemma map_of_insert_prop:
  "map_of d k = None \<Longrightarrow>
   map_of (insert_prop k v d) k' = (if k' = k then Some v else map_of d k')"
  by (induction d) (auto split: option.splits if_splits)

lemma keys_insert_prop: "fst ` set (insert_prop k v d) = insert k (fst ` set d)"
  by (induction d) (auto split: option.splits)

lemma distinct_insert_prop:
  "distinct (map fst d) \<Longrightarrow> k \<notin> fst ` set d \<Longrightarrow> distinct (map fst (insert_prop k v d))"
proof (induction d)
  case Nil
  then show ?case by simp
next
  case (Cons p d)
  have "fst p \<notin> fst ` set (insert_prop k v d)"
    using Cons.prems by (auto simp: keys_insert_prop)
  with Cons show ?case by (auto split: option.splits)
qed

lemma fold_insert_props:
  assumes "distinct (map fst xs)" "distinct (map fst acc)" "fst ` set acc \<inter> fst ` set xs = {}"
  shows "distinct (map fst (foldl (\<lambda>d kv. insert_prop (fst kv) (snd kv) d) acc xs)) \<and>
         map_of (foldl (\<lambda>d kv. insert_prop (fst kv) (snd kv) d) acc xs) k =
           (case map_of acc k of Some v \<Rightarrow> Some v | None \<Rightarrow> map_of xs k)"
  using assms
proof (induction xs arbitrary: acc)
  case Nil
  then show ?case by (simp split: option.splits)
next
  case (Cons x xs)
  have n: "map_of acc (fst x) = None"
    using Cons.prems(3) by (auto simp: map_of_eq_None_iff)
  have d: "distinct (map fst (insert_prop (fst x) (snd x) acc))"
    using Cons.prems by (intro distinct_insert_prop) auto
  have i: "fst ` set (insert_prop (fst x) (snd x) acc) \<inter> fst ` set xs = {}"
    using Cons.prems by (auto simp: keys_insert_prop)
  have "distinct (map fst xs)" using Cons.prems(1) by simp
  from Cons.IH [OF this d i]
  have ih: "distinct (map fst (foldl (\<lambda>d kv. insert_prop (fst kv) (snd kv) d)
                                (insert_prop (fst x) (snd x) acc) xs))"
    "map_of (foldl (\<lambda>d kv. insert_prop (fst kv) (snd kv) d)
              (insert_prop (fst x) (snd x) acc) xs) k =
     (case map_of (insert_prop (fst x) (snd x) acc) k of Some v \<Rightarrow> Some v
      | None \<Rightarrow> map_of xs k)"
    by simp_all
  have e: "map_of (insert_prop (fst x) (snd x) acc) k =
           (if k = fst x then Some (snd x) else map_of acc k)"
    by (rule map_of_insert_prop [OF n])
  show ?case
  proof (cases "k = fst x")
    case True
    with e have "map_of (insert_prop (fst x) (snd x) acc) k = Some (snd x)" by simp
    with ih n True show ?thesis by simp
  next
    case False
    then have "map_of (x # xs) k = map_of xs k" by (cases x) simp
    with False ih show ?thesis by (simp add: e split: option.splits)
  qed
qed

lemma distinct_enumeration: "distinct (map fst (enumeration kvs))"
  using fold_insert_props [of "AList.clearjunk kvs" "[]"]
  by (simp add: enumeration_def distinct_clearjunk)

lemma map_of_enumeration: "map_of (enumeration kvs) k = map_of kvs k"
  using fold_insert_props [of "AList.clearjunk kvs" "[]" k]
  by (simp add: enumeration_def distinct_clearjunk map_of_clearjunk)

lemma copy_primitive: "\<not> isObject v \<Longrightarrow> copy v = v"
  by (cases v) simp_all

text \<open>What a merge into \<open>d\<close> leaves, takes and gives under one name.\<close>

lemma merge_props_kept:
  "map_of d k = Some ov \<Longrightarrow> ov \<noteq> JUndefined \<Longrightarrow> \<not> isPlainObject ov \<Longrightarrow>
   map_of (merge_props d s) k = Some ov"
proof (induction s arbitrary: d)
  case Nil
  then show ?case by simp
next
  case (Cons p s)
  obtain k' v' where p: "p = (k', v')" by (cases p)
  let ?d = "case map_of d k' of
          None \<Rightarrow> if inherited k' then d else insert_prop k' (copy v') d
        | Some JUndefined \<Rightarrow> AList.update k' (copy v') d
        | Some (JObj d') \<Rightarrow>
            (if isObject v' then AList.update k' (JObj (merge_props d' (own_props v'))) d
             else d)
        | Some ov \<Rightarrow> d"
  have "map_of ?d k = Some ov"
  proof (cases "k' = k")
    case True
    then show ?thesis using Cons.prems by (cases ov) auto
  next
    case False
    then show ?thesis using Cons.prems(1)
      by (auto simp: map_of_insert_prop update_conv' split: option.splits js.splits)
  qed
  then have "map_of (merge_props ?d s) k = Some ov"
    using Cons.prems(2,3) by (rule Cons.IH)
  then show ?case by (simp add: p)
qed

lemma merge_props_untouched:
  "k \<notin> fst ` set s \<Longrightarrow> map_of (merge_props d s) k = map_of d k"
proof (induction s arbitrary: d)
  case Nil
  then show ?case by simp
next
  case (Cons p s)
  obtain k' v' where p: "p = (k', v')" by (cases p)
  let ?d = "case map_of d k' of
          None \<Rightarrow> if inherited k' then d else insert_prop k' (copy v') d
        | Some JUndefined \<Rightarrow> AList.update k' (copy v') d
        | Some (JObj d') \<Rightarrow>
            (if isObject v' then AList.update k' (JObj (merge_props d' (own_props v'))) d
             else d)
        | Some ov \<Rightarrow> d"
  have k: "k' \<noteq> k" "k \<notin> fst ` set s" using Cons.prems p by auto
  have "map_of ?d k = map_of d k"
    using k(1) by (auto simp: map_of_insert_prop update_conv' split: option.splits js.splits)
  moreover have "map_of (merge_props ?d s) k = map_of ?d k" using k(2) by (rule Cons.IH)
  ultimately show ?case by (simp add: p)
qed

lemma merge_props_given:
  "distinct (map fst s) \<Longrightarrow> map_of d k = None \<Longrightarrow> \<not> inherited k \<Longrightarrow>
   map_of s k = Some v \<Longrightarrow> \<not> isObject v \<Longrightarrow> map_of (merge_props d s) k = Some v"
proof (induction s arbitrary: d)
  case Nil
  then show ?case by simp
next
  case (Cons p s)
  obtain k' v' where p: "p = (k', v')" by (cases p)
  let ?d = "case map_of d k' of
          None \<Rightarrow> if inherited k' then d else insert_prop k' (copy v') d
        | Some JUndefined \<Rightarrow> AList.update k' (copy v') d
        | Some (JObj d') \<Rightarrow>
            (if isObject v' then AList.update k' (JObj (merge_props d' (own_props v'))) d
             else d)
        | Some ov \<Rightarrow> d"
  have m: "merge_props d (p # s) = merge_props ?d s" by (simp add: p)
  show ?case
  proof (cases "k' = k")
    case True
    then have v: "v' = v" and s: "k \<notin> fst ` set s" using Cons.prems(1,4) p by auto
    have "?d = insert_prop k v d"
      using True v Cons.prems(2,3,5) by (simp add: copy_primitive)
    then have "map_of ?d k = Some v" using Cons.prems(2) by (simp add: map_of_insert_prop)
    then show ?thesis using merge_props_untouched [OF s, of ?d] m by simp
  next
    case False
    have "map_of ?d k = None"
      using False Cons.prems(2)
      by (auto simp: map_of_insert_prop update_conv' split: option.splits js.splits)
    moreover have "distinct (map fst s)" "map_of s k = Some v"
      using Cons.prems(1,4) False p by auto
    ultimately have "map_of (merge_props ?d s) k = Some v"
      using Cons.prems(3,5) Cons.IH [of ?d] by blast
    then show ?thesis using m by simp
  qed
qed

lemma not_index: "index_of ''location'' = None" "index_of ''id'' = None"
  "index_of ''timestamp'' = None" "index_of ''accuracy'' = None"
  by (simp_all add: index_of_def digit_def)

lemma not_inherited: "\<not> inherited ''location''" "\<not> inherited ''id''"
  "\<not> inherited ''timestamp''" "\<not> inherited ''accuracy''"
  "\<not> inherited ''latitude''" "\<not> inherited ''longitude''" "\<not> inherited ''multi''"
  "\<not> inherited ''multiplier''"
  by (simp_all add: inherited_def)

lemma locationTimestamp_shape:
  "locationTimestamp E L (JNum a) i =
   JObj [(''location'', JObj (if isObject L then merge_props [(''accuracy'', JNum a)] (own_props L)
                              else [(''accuracy'', JNum a)])),
         (''id'', copy i), (''timestamp'', timestamp_of E)]"
  by (simp add: locationTimestamp_def defaultsDeep_def baseLocationTimestamp_def enumeration_def
      timestamp_of_def not_index not_inherited)

lemma locationTimestamp_id: "field (locationTimestamp E L (JNum a) i) ''id'' = copy i"
  by (simp add: locationTimestamp_shape)

lemma locationTimestamp_timestamp:
  "field (locationTimestamp E L (JNum a) i) ''timestamp'' = timestamp_of E"
  by (simp add: locationTimestamp_shape)

lemma locationTimestamp_accuracy:
  "field (field (locationTimestamp E L (JNum a) i) ''location'') ''accuracy'' = JNum a"
  using merge_props_kept [of "[(''accuracy'', JNum a)]" "''accuracy''" "JNum a" "own_props L"]
  by (simp add: locationTimestamp_shape)

lemma locationTimestamp_field:
  assumes "isPlainObject L" "name \<noteq> ''accuracy''" "\<not> inherited name"
    and "\<not> isObject (field L name)"
  shows "field (field (locationTimestamp E L (JNum a) i) ''location'') name = field L name"
proof -
  obtain kvs where L: "L = JObj kvs" using assms(1) by (cases L) auto
  show ?thesis
  proof (cases "map_of kvs name")
    case None
    then have "map_of (enumeration kvs) name = None" by (simp add: map_of_enumeration)
    then have "name \<notin> fst ` set (enumeration kvs)" by (simp add: map_of_eq_None_iff)
    then have "map_of (merge_props [(''accuracy'', JNum a)] (enumeration kvs)) name = None"
      using assms(2) by (simp add: merge_props_untouched)
    then show ?thesis using None by (simp add: locationTimestamp_shape L)
  next
    case (Some v)
    then have v: "\<not> isObject v" using assms(4) L by simp
    have "map_of (merge_props [(''accuracy'', JNum a)] (enumeration kvs)) name = Some v"
      by (rule merge_props_given)
        (use assms(2,3) v Some in \<open>simp_all add: distinct_enumeration map_of_enumeration\<close>)
    then show ?thesis using Some by (simp add: locationTimestamp_shape L)
  qed
qed

lemma js_add_numbers:
  "js_add E (JNum b) (JNum x) = Inr (JNum (num_add b x))"
  by (simp add: js_add_def)

lemma js_mul_number:
  "\<not> unprintable m \<Longrightarrow> js_mul E (JNum x) m = Inr (JNum (num_mul x (to_number E m)))"
  by (simp add: js_mul_def)

lemma baseAccuracy_number:
  "field L ''accuracy'' = JUndefined \<or> isNumber (field L ''accuracy'') \<Longrightarrow>
   isNumber (baseAccuracy L)"
  by (auto simp: baseAccuracy_def)

lemma direct_numeric:
  assumes "\<not> nullish d" "field d ''distance'' = JNum x" "baseAccuracy L = JNum b"
  shows "direct_locationTimestamp E L d =
         Inr (locationTimestamp E L (JNum (num_add b x)) (field d ''id''))"
  using assms by (simp add: direct_locationTimestamp_def member_def js_add_numbers)

lemma flag_numeric:
  assumes "\<not> nullish d" "\<not> nullish L" "field d ''distance'' = JNum x"
    "baseAccuracy L = JNum b" "\<not> unprintable (field L ''multi'')"
  shows "flag_locationTimestamp E L d =
         Inr (locationTimestamp E L
                (JNum (num_add b (num_mul x (to_number E (field L ''multi'')))))
                (field d ''id''))"
  using assms
  by (simp add: flag_locationTimestamp_def member_def js_add_numbers js_mul_number)

lemma map_result_map:
  "(\<forall>x \<in> set xs. f x = Inr (g x)) \<Longrightarrow> map_result f xs = Inr (map g xs)"
  by (induction xs) simp_all

lemma stores_map:
  "(\<forall>d \<in> set ds. field (g d) ''id'' = field d ''id'') \<Longrightarrow>
   stores (map g ds) =
   map (\<lambda>d. (field d ''id'', g d)) (filter (\<lambda>d. truthy (field d ''id'')) ds)"
  by (induction ds) (simp_all add: stores_def)

lemma device_entry_id: "device_entry d \<Longrightarrow> truthy (field d ''id'') = nonempty_id d"
  by (cases "field d ''id''") (auto simp: device_entry_def nonempty_id_def)

lemma device_entry_not_nullish: "device_entry d \<Longrightarrow> \<not> nullish d"
  by (cases d) (auto simp: device_entry_def)

lemma base_location_accuracy: "base_location L \<Longrightarrow> \<exists>b. baseAccuracy L = JNum b"
  by (cases "field L ''accuracy''") (auto simp: base_location_def baseAccuracy_def)

lemma direct_entry:
  assumes "device_entry d" "base_location L"
  shows "direct_locationTimestamp E L d = Inr (direct_record E L d)"
proof -
  obtain b where b: "baseAccuracy L = JNum b" using assms(2) base_location_accuracy by blast
  obtain x where x: "field d ''distance'' = JNum x"
    using assms(1) by (cases "field d ''distance''") (auto simp: device_entry_def)
  show ?thesis
    using direct_numeric [OF device_entry_not_nullish [OF assms(1)] x b]
    by (simp add: direct_record_def b x)
qed

lemma flag_entry:
  assumes "device_entry d" "base_location L" "\<not> unprintable (field L ''multi'')"
  shows "flag_locationTimestamp E L d = Inr (flag_record E L d)"
proof -
  obtain b where b: "baseAccuracy L = JNum b" using assms(2) base_location_accuracy by blast
  obtain x where x: "field d ''distance'' = JNum x"
    using assms(1) by (cases "field d ''distance''") (auto simp: device_entry_def)
  have n: "\<not> nullish L" using assms(2) by (cases L) (auto simp: base_location_def)
  show ?thesis
    using flag_numeric [OF device_entry_not_nullish [OF assms(1)] n x b assms(3)]
    by (simp add: flag_record_def b x)
qed

lemma direct_outcome:
  assumes "\<not> truthy (field body ''flag'')"
    and "truthy (field (field body ''location'') ''longitude'')"
    and "truthy (field (field body ''location'') ''latitude'')"
    and "field body ''devices'' = JArr ds" "list_all device_entry ds"
    and "base_location (field body ''location'')"
  shows "post_location E body =
         persist E [] None (map (direct_record E (field body ''location'')) ds)"
proof -
  have "map_result (direct_locationTimestamp E (field body ''location'')) ds =
        Inr (map (direct_record E (field body ''location'')) ds)"
    by (rule map_result_map) (use assms(5,6) direct_entry in \<open>auto simp: list_all_iff\<close>)
  then show ?thesis
    by (simp add: post_location_def direct_route [OF assms(1-4)])
qed

lemma flag_outcome:
  assumes "truthy (field body ''flag'')"
    and "template_string E (field body ''flag'') = Inr name"
    and "firebase_get E (''flag/'' @ name) = Inr L"
    and "base_location L" "\<not> unprintable (field L ''multi'')"
    and "field body ''devices'' = JArr ds" "list_all device_entry ds"
  shows "post_location E body = persist E [''flag/'' @ name] None (map (flag_record E L) ds)"
proof -
  have b: "\<not> nullish body" using assms(1) by (rule truthy_field_not_nullish)
  have n: "\<not> nullish L" "truthy L" using assms(4) by (cases L; simp add: base_location_def)+
  have "map_result (flag_locationTimestamp E L) ds = Inr (map (flag_record E L) ds)"
    by (rule map_result_map) (use assms(4,5,7) flag_entry in \<open>auto simp: list_all_iff\<close>)
  then have "flag_locationTimestamps E body L = Inr (map (flag_record E L) ds)"
    by (simp add: flag_locationTimestamps_devices [OF b n(1)] assms(6))
  then show ?thesis
    by (simp add: post_location_def flag_route [OF assms(1-3)] n)
qed

lemma device_entry_copy_id: "device_entry d \<Longrightarrow> copy (field d ''id'') = field d ''id''"
  by (cases "field d ''id''") (auto simp: device_entry_def)

lemma stores_records:
  assumes "list_all device_entry ds" "\<And>d. device_entry d \<Longrightarrow> field (g d) ''id'' = field d ''id''"
  shows "stores (map g ds) = map (\<lambda>d. (field d ''id'', g d)) (filter nonempty_id ds)"
proof -
  have "filter (\<lambda>d. truthy (field d ''id'')) ds = filter nonempty_id ds"
    by (rule filter_cong) (use assms(1) device_entry_id in \<open>auto simp: list_all_iff\<close>)
  moreover have "\<forall>d \<in> set ds. field (g d) ''id'' = field d ''id''"
    using assms by (auto simp: list_all_iff)
  ultimately show ?thesis using stores_map [of ds g] by simp
qed

lemma direct_record_id:
  "device_entry d \<Longrightarrow> field (direct_record E L d) ''id'' = field d ''id''"
  by (simp add: direct_record_def locationTimestamp_id device_entry_copy_id)

lemma flag_record_id:
  "device_entry d \<Longrightarrow> field (flag_record E L d) ''id'' = field d ''id''"
  by (simp add: flag_record_def locationTimestamp_id device_entry_copy_id)

lemma direct_writes:
  assumes "\<not> truthy (field body ''flag'')"
    and "truthy (field (field body ''location'') ''longitude'')"
    and "truthy (field (field body ''location'') ''latitude'')"
    and "field body ''devices'' = JArr ds" "list_all device_entry ds"
    and "base_location (field body ''location'')"
  shows "writes (post_location E body) =
         map (\<lambda>d. (field d ''id'', direct_record E (field body ''location'') d))
           (filter nonempty_id ds)"
  by (simp add: direct_outcome [OF assms] writes_persist
      stores_records [OF assms(5) direct_record_id])

lemma flag_writes:
  assumes "truthy (field body ''flag'')"
    and "template_string E (field body ''flag'') = Inr name"
    and "firebase_get E (''flag/'' @ name) = Inr L"
    and "base_location L" "\<not> unprintable (field L ''multi'')"
    and "field body ''devices'' = JArr ds" "list_all device_entry ds"
  shows "writes (post_location E body) =
         map (\<lambda>d. (field d ''id'', flag_record E L d)) (filter nonempty_id ds)"
  by (simp add: flag_outcome [OF assms] writes_persist
      stores_records [OF assms(7) flag_record_id])

lemma base_location_plain: "base_location L \<Longrightarrow> isPlainObject L"
  by (simp add: base_location_def)

lemma accuracies_direct:
  assumes "\<not> truthy (field body ''flag'')"
    and "truthy (field (field body ''location'') ''longitude'')"
    and "truthy (field (field body ''location'') ''latitude'')"
    and "field body ''devices'' = JArr ds" "list_all device_entry ds"
    and "base_location (field body ''location'')"
  shows "accuracies (post_location E body) =
         map (\<lambda>d. JNum (num_add (to_number E (baseAccuracy (field body ''location'')))
                       (to_number E (field d ''distance''))))
           (filter nonempty_id ds)"
  by (simp add: accuracies_def direct_writes [OF assms] o_def direct_record_def
      locationTimestamp_accuracy)

lemma accuracies_flag:
  assumes "truthy (field body ''flag'')"
    and "template_string E (field body ''flag'') = Inr name"
    and "firebase_get E (''flag/'' @ name) = Inr L"
    and "base_location L" "\<not> unprintable (field L ''multi'')"
    and "field body ''devices'' = JArr ds" "list_all device_entry ds"
  shows "accuracies (post_location E body) =
         map (\<lambda>d. JNum (num_add (to_number E (baseAccuracy L))
                       (num_mul (to_number E (field d ''distance''))
                          (to_number E (field L ''multi'')))))
           (filter nonempty_id ds)"
  by (simp add: accuracies_def flag_writes [OF assms] o_def flag_record_def
      locationTimestamp_accuracy)

lemma record_facts:
  assumes "isPlainObject L"
    and "\<not> isObject (field L ''latitude'')" "\<not> isObject (field L ''longitude'')"
  shows "field (locationTimestamp E L (JNum a) i) ''timestamp'' = timestamp_of E \<and>
         field (field (locationTimestamp E L (JNum a) i) ''location'') ''latitude'' =
           field L ''latitude'' \<and>
         field (field (locationTimestamp E L (JNum a) i) ''location'') ''longitude'' =
           field L ''longitude''"
  using locationTimestamp_field [OF assms(1) _ _ assms(2), of E a i]
    locationTimestamp_field [OF assms(1) _ _ assms(3), of E a i]
  by (simp add: locationTimestamp_timestamp not_inherited)

lemma finite_base_accuracy:
  assumes "field L ''accuracy'' = JUndefined \<or> field L ''accuracy'' = JNum (Fin a)"
  shows "\<exists>b. baseAccuracy L = JNum (Fin b)"
  using assms by (auto simp: baseAccuracy_def)

subsection \<open>Unfolding the model on concrete requests\<close>

lemmas eval_defs =
  post_location_def location_route_def handleFlaggedRequest_def flag_locationTimestamps_def
  flag_locationTimestamp_def direct_locationTimestamp_def locationTimestamp_def defaultsDeep_def
  baseLocationTimestamp_def baseAccuracy_def member_def js_add_def js_mul_def template_string_def
  persist_def stores_def rejections_def respond_def timestamp_of_def List.map_filter_def
  enumeration_def index_of_def digit_def digits_value_def inherited_def isLength_def

lemmas sample_defs =
  sample_env_def sample_get_def zoneA_def zoneB_def zoneC_def device_def direct_report_def
  flag_report_def

lemmas model_defs = enumeration_def index_of_def digit_def digits_value_def inherited_def


section \<open>The claims\<close>

text \<open>C1, as the specification states it: with the stored flag document
  \<open>{latitude:9, longitude:9, accuracy:5, multiplier:3}\<close> and the devices
  \<open>[{id:"d1", distance:2}]\<close> the record written has accuracy 11. It has not: line 314
  reads the field \<open>multi\<close> of the document, which this document lacks, so the product
  is \<open>NaN\<close> and so is the accuracy; and the location of the record keeps the field
  \<open>multiplier\<close> of the document.\<close>

theorem multiplier_field_counterexample:
  "writes (post_location sample_env (flag_report ''zoneA'' (JArr [device ''d1'' 2]))) =
     [(JStr ''d1'',
       JObj [(''location'', JObj [(''accuracy'', JNum NaN), (''latitude'', JNum (Fin 9)),
                                 (''longitude'', JNum (Fin 9)), (''multiplier'', JNum (Fin 3))]),
             (''id'', JStr ''d1''), (''timestamp'', JNum (Fin 1500000000000))])]"
  by (simp add: eval_defs sample_defs)

text \<open>C1, amended: on the flag path, for a stored document that is an object whose
  accuracy is a number or absent, and device entries with numeric distances, the accuracy
  of each record written is the base accuracy plus the distance times the field \<open>multi\<close>
  of the document. With the stored document \<open>{latitude:9, longitude:9, accuracy:5, multi:3}\<close>
  and the devices \<open>[{id:"d1", distance:2}]\<close> exactly one record is written,
  \<open>{id:"d1", location:{latitude:9, longitude:9, accuracy:11, multi:3}, timestamp:T}\<close>.\<close>

theorem flag_accuracy_uses_multi:
  "(flag \<noteq> [] \<and> firebase_get E (''flag/'' @ flag) = Inr zoneB \<longrightarrow>
    writes (post_location E (flag_report flag (JArr [device ''d1'' 2]))) =
      [(JStr ''d1'',
        JObj [(''location'', JObj [(''accuracy'', JNum (Fin 11)), (''latitude'', JNum (Fin 9)),
                                  (''longitude'', JNum (Fin 9)), (''multi'', JNum (Fin 3))]),
              (''id'', JStr ''d1''), (''timestamp'', timestamp_of E)])]) \<and>
   (truthy (field body ''flag'') \<and> template_string E (field body ''flag'') = Inr name \<and>
    firebase_get E (''flag/'' @ name) = Inr L \<and>
    base_location L \<and> \<not> unprintable (field L ''multi'') \<and>
    field body ''devices'' = JArr ds \<and> list_all device_entry ds \<longrightarrow>
    accuracies (post_location E body) =
      map (\<lambda>d. JNum (num_add (to_number E (baseAccuracy L))
                    (num_mul (to_number E (field d ''distance''))
                       (to_number E (field L ''multi'')))))
        (filter nonempty_id ds))"
proof (intro conjI impI)
  assume a: "flag \<noteq> [] \<and> firebase_get E (''flag/'' @ flag) = Inr zoneB"
  have "writes (post_location E (flag_report flag (JArr [device ''d1'' 2]))) =
        map (\<lambda>d. (field d ''id'', flag_record E zoneB d)) (filter nonempty_id [device ''d1'' 2])"
    by (rule flag_writes [where name = flag])
      (use a in \<open>simp_all add: flag_report_def template_string_def zoneB_def base_location_def
          device_entry_def device_def\<close>)
  then show "writes (post_location E (flag_report flag (JArr [device ''d1'' 2]))) =
      [(JStr ''d1'',
        JObj [(''location'', JObj [(''accuracy'', JNum (Fin 11)), (''latitude'', JNum (Fin 9)),
                                  (''longitude'', JNum (Fin 9)), (''multi'', JNum (Fin 3))]),
              (''id'', JStr ''d1''), (''timestamp'', timestamp_of E)])]"
    by (simp add: nonempty_id_def device_def flag_record_def zoneB_def baseAccuracy_def
        locationTimestamp_shape model_defs)
next
  assume "truthy (field body ''flag'') \<and> template_string E (field body ''flag'') = Inr name \<and>
    firebase_get E (''flag/'' @ name) = Inr L \<and>
    base_location L \<and> \<not> unprintable (field L ''multi'') \<and>
    field body ''devices'' = JArr ds \<and> list_all device_entry ds"
  then show "accuracies (post_location E body) =
      map (\<lambda>d. JNum (num_add (to_number E (baseAccuracy L))
                    (num_mul (to_number E (field d ''distance''))
                       (to_number E (field L ''multi'')))))
        (filter nonempty_id ds)"
    using accuracies_flag [of body E name L ds] by simp
qed

theorem flag_accuracy_uses_multi_witness:
  "writes (post_location sample_env (flag_report ''zoneB'' (JArr [device ''d1'' 2]))) =
     [(JStr ''d1'',
       JObj [(''location'', JObj [(''accuracy'', JNum (Fin 11)), (''latitude'', JNum (Fin 9)),
                                 (''longitude'', JNum (Fin 9)), (''multi'', JNum (Fin 3))]),
             (''id'', JStr ''d1''), (''timestamp'', JNum (Fin 1500000000000))])] \<and>
   accuracies (post_location sample_env
      (flag_report ''zoneB'' (JArr [device ''d1'' 2, device [] 4, device ''d3'' 1]))) =
     [JNum (Fin 11), JNum (Fin 8)]"
  using flag_accuracy_uses_multi
    [of "''zoneB''" sample_env
        "flag_report ''zoneB'' (JArr [device ''d1'' 2, device [] 4, device ''d3'' 1])"
        "''zoneB''" zoneB "[device ''d1'' 2, device [] 4, device ''d3'' 1]"]
  by (simp add: sample_defs template_string_def base_location_def device_entry_def
      nonempty_id_def baseAccuracy_def timestamp_of_def)

text \<open>C2: a flagged report whose flag has no stored document (the read yields \<open>null\<close>,
  as Firebase does for a key that holds nothing, or \<open>undefined\<close>) is answered with
  status 500, \<open>flag ... is empty\<close>; one read is made and not repeated, no write is
  issued and no derived computation is scheduled. The handler does not return after
  answering: it is the \<open>TypeError\<close> of \<open>location.accuracy\<close> that stops it before
  the first write.\<close>

theorem missing_flag_fails:
  assumes "truthy (field body ''flag'')"
    and "template_string E (field body ''flag'') = Inr name"
    and "firebase_get E (''flag/'' @ name) = Inr doc" and "nullish doc"
  shows "post_location E body =
           \<lparr>reads = [''flag/'' @ name], writes = [], reply = Some (FlagEmpty name), derived = None\<rparr> \<and>
         status (FlagEmpty name) = 500"
proof -
  have f: "\<not> truthy doc" using assms(4) truthy_not_nullish by blast
  have "flag_locationTimestamps E body doc = Inl TypeError"
    using assms(4) by (simp add: flag_locationTimestamps_def member_def)
  then show ?thesis
    by (simp add: post_location_def flag_route [OF assms(1-3)] f)
qed

theorem missing_flag_fails_witness:
  "post_location sample_env (flag_report ''missing'' (JArr [device ''d1'' 1])) =
     \<lparr>reads = [''flag/missing''], writes = [], reply = Some (FlagEmpty ''missing''),
      derived = None\<rparr>"
  using missing_flag_fails
    [of "flag_report ''missing'' (JArr [device ''d1'' 1])" sample_env "''missing''" JNull]
  by (simp add: sample_defs template_string_def)

text \<open>C3: for a report whose devices are a sequence of device entries, over a base
  location that is an object with a latitude and a longitude that are not themselves
  objects (the report's own location on the direct path, the stored document on the
  flag path), one write is issued for each entry with a non-empty id, keyed by that id
  and in the order of the entries; every record written carries its key as id, the
  timestamp of the request, and the latitude and longitude of the base location. The
  writes are counted as issued: whether each one succeeds is the gateway's matter.\<close>

theorem one_write_per_identified_device:
  assumes "field body ''devices'' = JArr ds" and "list_all device_entry ds"
    and "base_location L"
    and "\<not> isObject (field L ''latitude'')" and "\<not> isObject (field L ''longitude'')"
    and "(\<not> truthy (field body ''flag'') \<and> field body ''location'' = L \<and>
          truthy (field L ''longitude'') \<and> truthy (field L ''latitude'')) \<or>
         (truthy (field body ''flag'') \<and> template_string E (field body ''flag'') = Inr name \<and>
          firebase_get E (''flag/'' @ name) = Inr L \<and> \<not> unprintable (field L ''multi''))"
  shows "map fst (writes (post_location E body)) = map (\<lambda>d. field d ''id'') (filter nonempty_id ds) \<and>
         length (writes (post_location E body)) = length (filter nonempty_id ds) \<and>
         list_all (\<lambda>w. field (snd w) ''id'' = fst w \<and>
                       field (snd w) ''timestamp'' = timestamp_of E \<and>
                       field (field (snd w) ''location'') ''latitude'' = field L ''latitude'' \<and>
                       field (field (snd w) ''location'') ''longitude'' = field L ''longitude'')
           (writes (post_location E body))"
proof -
  have p: "isPlainObject L" using assms(3) by (rule base_location_plain)
  have e: "\<forall>d \<in> set (filter nonempty_id ds). device_entry d"
    using assms(2) by (simp add: list_all_iff)
  from assms(6) show ?thesis
  proof
    assume a: "\<not> truthy (field body ''flag'') \<and> field body ''location'' = L \<and>
          truthy (field L ''longitude'') \<and> truthy (field L ''latitude'')"
    then have w: "writes (post_location E body) =
        map (\<lambda>d. (field d ''id'', direct_record E L d)) (filter nonempty_id ds)"
      using direct_writes [of body ds E] assms(1-3) by simp
    have "field (snd w) ''id'' = fst w \<and>
          field (snd w) ''timestamp'' = timestamp_of E \<and>
          field (field (snd w) ''location'') ''latitude'' = field L ''latitude'' \<and>
          field (field (snd w) ''location'') ''longitude'' = field L ''longitude''"
      if "w \<in> set (writes (post_location E body))" for w
    proof -
      from that obtain d where d: "device_entry d" "w = (field d ''id'', direct_record E L d)"
        using e by (auto simp: w)
      show ?thesis
        using record_facts [OF p assms(4,5)] direct_record_id [OF d(1)]
        by (simp add: d(2)) (simp add: direct_record_def)
    qed
    then show ?thesis unfolding list_all_iff by (simp add: w o_def)
  next
    assume a: "truthy (field body ''flag'') \<and> template_string E (field body ''flag'') = Inr name \<and>
          firebase_get E (''flag/'' @ name) = Inr L \<and> \<not> unprintable (field L ''multi'')"
    then have w: "writes (post_location E body) =
        map (\<lambda>d. (field d ''id'', flag_record E L d)) (filter nonempty_id ds)"
      using flag_writes [of body E name L ds] assms(1-3) by simp
    have "field (snd w) ''id'' = fst w \<and>
          field (snd w) ''timestamp'' = timestamp_of E \<and>
          field (field (snd w) ''location'') ''latitude'' = field L ''latitude'' \<and>
          field (field (snd w) ''location'') ''longitude'' = field L ''longitude''"
      if "w \<in> set (writes (post_location E body))" for w
    proof -
      from that obtain d where d: "device_entry d" "w = (field d ''id'', flag_record E L d)"
        using e by (auto simp: w)
      show ?thesis
        using record_facts [OF p assms(4,5)] flag_record_id [OF d(1)]
        by (simp add: d(2)) (simp add: flag_record_def)
    qed
    then show ?thesis unfolding list_all_iff by (simp add: w o_def)
  qed
qed

theorem one_write_per_identified_device_witness:
  "map fst (writes (post_location sample_env
      (direct_report 1 2 10 [device ''d1'' 5, device [] 1, device ''d3'' 7]))) =
     [JStr ''d1'', JStr ''d3''] \<and>
   length (writes (post_location sample_env
      (flag_report ''zoneB'' (JArr [device ''d1'' 2, device [] 1])))) = 1"
proof -
  have "map fst (writes (post_location sample_env
      (direct_report 1 2 10 [device ''d1'' 5, device [] 1, device ''d3'' 7]))) =
     [JStr ''d1'', JStr ''d3'']"
    using one_write_per_identified_device
      [of "direct_report 1 2 10 [device ''d1'' 5, device [] 1, device ''d3'' 7]"
          "[device ''d1'' 5, device [] 1, device ''d3'' 7]"
          "JObj [(''latitude'', JNum (Fin 1)), (''longitude'', JNum (Fin 2)),
                 (''accuracy'', JNum (Fin 10))]"
          sample_env "[]"]
    by (simp add: sample_defs base_location_def device_entry_def nonempty_id_def)
  moreover have "length (writes (post_location sample_env
      (flag_report ''zoneB'' (JArr [device ''d1'' 2, device [] 1])))) = 1"
    using one_write_per_identified_device
      [of "flag_report ''zoneB'' (JArr [device ''d1'' 2, device [] 1])"
          "[device ''d1'' 2, device [] 1]" zoneB sample_env "''zoneB''"]
    by (simp add: sample_defs base_location_def device_entry_def nonempty_id_def
        template_string_def)
  ultimately show ?thesis by simp
qed

text \<open>C4: the specification has every report fail with \<open>InvalidDevices\<close> when its
  devices are not a sequence, on both paths. The flag path has no such check: a flagged
  report with no devices at all is answered with status 200, and one whose devices are an
  object has the values of that object written as records.\<close>

theorem flag_path_skips_devices_check:
  "post_location sample_env (JObj [(''flag'', JStr ''zoneB'')]) =
     \<lparr>reads = [''flag/zoneB''], writes = [], reply = Some Sent200, derived = Some []\<rparr> \<and>
   reply (post_location sample_env
            (flag_report ''zoneB'' (JObj [(''first'', device ''d1'' 2)]))) = Some Sent200 \<and>
   writes (post_location sample_env
            (flag_report ''zoneB'' (JObj [(''first'', device ''d1'' 2)]))) =
     [(JStr ''d1'',
       JObj [(''location'', JObj [(''accuracy'', JNum (Fin 11)), (''latitude'', JNum (Fin 9)),
                                 (''longitude'', JNum (Fin 9)), (''multi'', JNum (Fin 3))]),
             (''id'', JStr ''d1''), (''timestamp'', JNum (Fin 1500000000000))])]"
  by (simp add: eval_defs sample_defs isLength_def)

text \<open>C5: a flagged report is served from the stored flag document alone. Its outcome
  depends on its flag and its devices only: a report with the same truthy flag and the
  same devices has the same outcome, whatever location and accuracy either of them
  carries. And when the document is a base location (with latitude and longitude that are
  not objects) and the devices are device entries, the document is read once, under the
  key of the flag, the accuracy of each record written is computed from the document's
  accuracy and its field \<open>multi\<close>, and its latitude and longitude are the document's.\<close>

theorem flagged_report_uses_stored_document:
  assumes "truthy (field body ''flag'')"
  shows "(\<forall>body'. field body' ''flag'' = field body ''flag'' \<and>
                  field body' ''devices'' = field body ''devices'' \<longrightarrow>
                  post_location E body' = post_location E body) \<and>
         (template_string E (field body ''flag'') = Inr name \<and>
          firebase_get E (''flag/'' @ name) = Inr L \<and>
          base_location L \<and> \<not> unprintable (field L ''multi'') \<and>
          \<not> isObject (field L ''latitude'') \<and> \<not> isObject (field L ''longitude'') \<and>
          field body ''devices'' = JArr ds \<and> list_all device_entry ds \<longrightarrow>
          reads (post_location E body) = [''flag/'' @ name] \<and>
          accuracies (post_location E body) =
            map (\<lambda>d. JNum (num_add (to_number E (baseAccuracy L))
                          (num_mul (to_number E (field d ''distance''))
                             (to_number E (field L ''multi'')))))
              (filter nonempty_id ds) \<and>
          list_all (\<lambda>w. field (field (snd w) ''location'') ''latitude'' = field L ''latitude'' \<and>
                        field (field (snd w) ''location'') ''longitude'' = field L ''longitude'')
            (writes (post_location E body)))"
proof (intro conjI allI impI)
  fix body'
  assume a: "field body' ''flag'' = field body ''flag'' \<and>
             field body' ''devices'' = field body ''devices''"
  have b: "\<not> nullish body" "\<not> nullish body'"
    using assms a truthy_field_not_nullish [of body "''flag''"]
      truthy_field_not_nullish [of body' "''flag''"] by simp_all
  have m: "member body' ''flag'' = member body ''flag''"
    "member body' ''devices'' = member body ''devices''"
    using a b by (simp_all add: member_def)
  have eq: "flag_locationTimestamps E body' = flag_locationTimestamps E body"
    unfolding flag_locationTimestamps_def m ..
  have "handleFlaggedRequest E body' = handleFlaggedRequest E body"
    unfolding handleFlaggedRequest_def m eq ..
  then have "location_route E body' = location_route E body"
    using assms a b by (simp add: location_route_def member_def)
  then show "post_location E body' = post_location E body" by (simp add: post_location_def)
next
  assume h: "template_string E (field body ''flag'') = Inr name \<and>
          firebase_get E (''flag/'' @ name) = Inr L \<and>
          base_location L \<and> \<not> unprintable (field L ''multi'') \<and>
          \<not> isObject (field L ''latitude'') \<and> \<not> isObject (field L ''longitude'') \<and>
          field body ''devices'' = JArr ds \<and> list_all device_entry ds"
  then have o: "post_location E body = persist E [''flag/'' @ name] None (map (flag_record E L) ds)"
    using flag_outcome [of body E name L ds] assms by simp
  show "reads (post_location E body) = [''flag/'' @ name]"
    by (simp add: o reads_persist)
  show "accuracies (post_location E body) =
            map (\<lambda>d. JNum (num_add (to_number E (baseAccuracy L))
                          (num_mul (to_number E (field d ''distance''))
                             (to_number E (field L ''multi'')))))
              (filter nonempty_id ds)"
    using accuracies_flag [of body E name L ds] assms h by simp
  have p: "isPlainObject L" using h by (simp add: base_location_plain)
  have w: "writes (post_location E body) =
        map (\<lambda>d. (field d ''id'', flag_record E L d)) (filter nonempty_id ds)"
    using flag_writes [of body E name L ds] assms h by simp
  show "list_all (\<lambda>w. field (field (snd w) ''location'') ''latitude'' = field L ''latitude'' \<and>
                        field (field (snd w) ''location'') ''longitude'' = field L ''longitude'')
            (writes (post_location E body))"
    using record_facts [OF p] h by (simp add: w list_all_iff flag_record_def)
qed

theorem flagged_report_uses_stored_document_witness:
  "reads (post_location sample_env
     (JObj [(''flag'', JStr ''zoneB''), (''devices'', JArr [device ''d1'' 2]),
            (''location'', JObj [(''latitude'', JNum (Fin 1)), (''longitude'', JNum (Fin 2)),
                                (''accuracy'', JNum (Fin 10))])])) = [''flag/zoneB''] \<and>
   accuracies (post_location sample_env
     (JObj [(''flag'', JStr ''zoneB''), (''devices'', JArr [device ''d1'' 2]),
            (''location'', JObj [(''latitude'', JNum (Fin 1)), (''longitude'', JNum (Fin 2)),
                                (''accuracy'', JNum (Fin 10))])])) = [JNum (Fin 11)] \<and>
   post_location sample_env
     (JObj [(''flag'', JStr ''zoneB''), (''devices'', JArr [device ''d1'' 2])]) =
   post_location sample_env
     (JObj [(''flag'', JStr ''zoneB''), (''devices'', JArr [device ''d1'' 2]),
            (''location'', JObj [(''latitude'', JNum (Fin 1)), (''longitude'', JNum (Fin 2)),
                                (''accuracy'', JNum (Fin 10))])])"
proof -
  let ?B = "JObj [(''flag'', JStr ''zoneB''), (''devices'', JArr [device ''d1'' 2]),
                  (''location'', JObj [(''latitude'', JNum (Fin 1)), (''longitude'', JNum (Fin 2)),
                                      (''accuracy'', JNum (Fin 10))])]"
  let ?B' = "JObj [(''flag'', JStr ''zoneB''), (''devices'', JArr [device ''d1'' 2])]"
  have t: "truthy (field ?B ''flag'')" by simp
  note served = flagged_report_uses_stored_document
    [OF t, of sample_env "''zoneB''" zoneB "[device ''d1'' 2]"]
  have same: "post_location sample_env ?B' = post_location sample_env ?B"
    using served [THEN conjunct1, rule_format, of ?B'] by simp
  have "reads (post_location sample_env ?B) = [''flag/zoneB''] \<and>
        accuracies (post_location sample_env ?B) = [JNum (Fin 11)]"
    using served [THEN conjunct2]
    by (simp add: sample_defs template_string_def base_location_def device_entry_def
        nonempty_id_def baseAccuracy_def)
  with same show ?thesis by simp
qed

text \<open>C6, as the specification states it: a report with neither a location holding both
  coordinates nor a non-empty flag string is rejected before any read or write. It is
  not when its flag is truthy without being a string: line 251 tests \<open>req.body.flag\<close>
  for truthiness, so the report \<open>{flag:true, devices:[...]}\<close> takes the flag path and
  reads the key \<open>flag/true\<close>.\<close>

theorem truthy_flag_counterexample:
  "post_location sample_env (JObj [(''flag'', JBool True), (''devices'', JArr [device ''d1'' 1])]) =
     \<lparr>reads = [''flag/true''], writes = [], reply = Some (FlagEmpty ''true''), derived = None\<rparr>"
  by (simp add: eval_defs sample_defs)

text \<open>C6, amended: a report with no truthy flag (no flag, an empty flag string, or any
  other falsy value) and whose location lacks a latitude or a longitude (or is not there
  at all) is answered with status 400, \<open>Location data is invalid\<close>, and no read or write
  is made.\<close>

theorem no_location_no_flag_rejected:
  assumes "\<not> nullish body"
    and "\<not> truthy (field body ''flag'')"
    and "field (field body ''location'') ''latitude'' = JUndefined \<or>
         field (field body ''location'') ''longitude'' = JUndefined"
  shows "post_location E body = respond LocationInvalid \<and>
         reads (post_location E body) = [] \<and> writes (post_location E body) = []"
proof -
  have "post_location E body = respond LocationInvalid"
    using assms
    by (auto simp add: post_location_def location_route_def member_def truthy_not_nullish)
  then show ?thesis by (simp add: respond_def)
qed

theorem no_location_no_flag_rejected_witness:
  "post_location sample_env (JObj [(''devices'', JArr [device ''d1'' 1])]) =
     respond LocationInvalid \<and>
   post_location sample_env
     (JObj [(''flag'', JStr []), (''location'', JObj [(''latitude'', JNum (Fin 1))]),
            (''devices'', JArr [device ''d1'' 1])]) = respond LocationInvalid"
  using no_location_no_flag_rejected
    [of "JObj [(''devices'', JArr [device ''d1'' 1])]" sample_env]
    no_location_no_flag_rejected
    [of "JObj [(''flag'', JStr []), (''location'', JObj [(''latitude'', JNum (Fin 1))]),
               (''devices'', JArr [device ''d1'' 1])]" sample_env]
  by simp

text \<open>C7: the direct-path report
  \<open>{location:{latitude:1, longitude:2, accuracy:10}, devices:[{id:"d1", distance:5}]}\<close>
  has exactly one record written, under the key \<open>d1\<close>:
  \<open>{id:"d1", location:{latitude:1, longitude:2, accuracy:15}, timestamp:T}\<close>; and for
  every direct-path report with device entries over a base location whose accuracy is a
  number or absent, the accuracy of each record written is the base accuracy plus the
  distance of its device.\<close>

theorem direct_accuracy_adds_distance:
  "writes (post_location E (direct_report 1 2 10 [device ''d1'' 5])) =
     [(JStr ''d1'',
       JObj [(''location'', JObj [(''accuracy'', JNum (Fin 15)), (''latitude'', JNum (Fin 1)),
                                 (''longitude'', JNum (Fin 2))]),
             (''id'', JStr ''d1''), (''timestamp'', timestamp_of E)])] \<and>
   (\<not> truthy (field body ''flag'') \<and>
    truthy (field (field body ''location'') ''longitude'') \<and>
    truthy (field (field body ''location'') ''latitude'') \<and>
    base_location (field body ''location'') \<and>
    field body ''devices'' = JArr ds \<and> list_all device_entry ds \<longrightarrow>
    accuracies (post_location E body) =
      map (\<lambda>d. JNum (num_add (to_number E (baseAccuracy (field body ''location'')))
                    (to_number E (field d ''distance''))))
        (filter nonempty_id ds))"
proof (intro conjI impI)
  show "writes (post_location E (direct_report 1 2 10 [device ''d1'' 5])) =
     [(JStr ''d1'',
       JObj [(''location'', JObj [(''accuracy'', JNum (Fin 15)), (''latitude'', JNum (Fin 1)),
                                 (''longitude'', JNum (Fin 2))]),
             (''id'', JStr ''d1''), (''timestamp'', timestamp_of E)])]"
    by (simp add: post_location_def location_route_def direct_locationTimestamp_def
        locationTimestamp_def defaultsDeep_def baseLocationTimestamp_def baseAccuracy_def
        member_def js_add_def writes_persist stores_def direct_report_def device_def
        timestamp_of_def model_defs)
next
  assume "\<not> truthy (field body ''flag'') \<and>
    truthy (field (field body ''location'') ''longitude'') \<and>
    truthy (field (field body ''location'') ''latitude'') \<and>
    base_location (field body ''location'') \<and>
    field body ''devices'' = JArr ds \<and> list_all device_entry ds"
  then show "accuracies (post_location E body) =
      map (\<lambda>d. JNum (num_add (to_number E (baseAccuracy (field body ''location'')))
                    (to_number E (field d ''distance''))))
        (filter nonempty_id ds)"
    using accuracies_direct [of body ds E] by simp
qed

theorem direct_accuracy_adds_distance_witness:
  "accuracies (post_location sample_env
      (direct_report 1 2 10 [device ''d1'' 5, device [] 1, device ''d3'' 7])) =
   [JNum (Fin 15), JNum (Fin 17)]"
  using direct_accuracy_adds_distance
    [of sample_env "direct_report 1 2 10 [device ''d1'' 5, device [] 1, device ''d3'' 7]"
        "[device ''d1'' 5, device [] 1, device ''d3'' 7]"]
  by (simp add: sample_defs base_location_def device_entry_def nonempty_id_def baseAccuracy_def)

text \<open>C8, as the specification states it: for a fixed base accuracy and a fixed multiplier
  \<open>m \<ge> 0\<close> the computed accuracy never decreases when the distance grows. It does for a
  distance that is not finite (JSON \<open>1e999\<close> parses to \<open>Infinity\<close>): with the multiplier
  0 and the base accuracy 5, the distance 0 gives 5 and the distance \<open>Infinity\<close> gives
  \<open>5 + Infinity * 0\<close>, which is \<open>NaN\<close>, and \<open>5 <= NaN\<close> is false.\<close>

theorem infinite_distance_counterexample:
  "accuracies (post_location sample_env
      (flag_report ''zoneD''
         (JArr [device ''d1'' 0, JObj [(''id'', JStr ''d2''), (''distance'', JNum PosInf)]]))) =
     [JNum (Fin 5), JNum NaN] \<and>
   num_le (Fin 0) PosInf \<and> \<not> num_le (Fin 5) NaN"
  by (simp add: accuracies_def eval_defs sample_defs zoneD_def)

text \<open>C8, amended: for one base location whose accuracy is finite or absent and finite
  distances \<open>x1 \<le> x2\<close>, the accuracy computed for \<open>x1\<close> is at most the one computed for
  \<open>x2\<close>: on the direct path, and on the flag path when the multiplier read from the
  document is a finite number \<open>m \<ge> 0\<close>.\<close>

theorem accuracy_monotone_in_distance:
  assumes "field L ''accuracy'' = JUndefined \<or> field L ''accuracy'' = JNum (Fin a)"
    and "\<not> nullish d1" "field d1 ''distance'' = JNum (Fin x1)"
    and "\<not> nullish d2" "field d2 ''distance'' = JNum (Fin x2)"
    and "x1 \<le> x2"
  shows "(\<exists>r1 r2 a1 a2.
            direct_locationTimestamp E L d1 = Inr r1 \<and> direct_locationTimestamp E L d2 = Inr r2 \<and>
            field (field r1 ''location'') ''accuracy'' = JNum a1 \<and>
            field (field r2 ''location'') ''accuracy'' = JNum a2 \<and> num_le a1 a2) \<and>
         (field L ''multi'' = JNum (Fin m) \<and> 0 \<le> m \<longrightarrow>
          (\<exists>r1 r2 a1 a2.
            flag_locationTimestamp E L d1 = Inr r1 \<and> flag_locationTimestamp E L d2 = Inr r2 \<and>
            field (field r1 ''location'') ''accuracy'' = JNum a1 \<and>
            field (field r2 ''location'') ''accuracy'' = JNum a2 \<and> num_le a1 a2))"
proof -
  obtain b where b: "baseAccuracy L = JNum (Fin b)"
    using finite_base_accuracy [OF assms(1)] by blast
  show ?thesis
  proof (intro conjI impI)
    show "\<exists>r1 r2 a1 a2.
            direct_locationTimestamp E L d1 = Inr r1 \<and> direct_locationTimestamp E L d2 = Inr r2 \<and>
            field (field r1 ''location'') ''accuracy'' = JNum a1 \<and>
            field (field r2 ''location'') ''accuracy'' = JNum a2 \<and> num_le a1 a2"
      using assms(6)
      by (simp add: direct_numeric [OF assms(2,3) b] direct_numeric [OF assms(4,5) b]
          locationTimestamp_accuracy)
  next
    assume m: "field L ''multi'' = JNum (Fin m) \<and> 0 \<le> m"
    then have u: "\<not> unprintable (field L ''multi'')" by simp
    have n: "\<not> nullish L" using m by (cases L) auto
    show "\<exists>r1 r2 a1 a2.
            flag_locationTimestamp E L d1 = Inr r1 \<and> flag_locationTimestamp E L d2 = Inr r2 \<and>
            field (field r1 ''location'') ''accuracy'' = JNum a1 \<and>
            field (field r2 ''location'') ''accuracy'' = JNum a2 \<and> num_le a1 a2"
      using assms(6) m
      by (simp add: flag_numeric [OF assms(2) n assms(3) b u] flag_numeric [OF assms(4) n assms(5) b u]
          locationTimestamp_accuracy mult_right_mono)
  qed
qed

theorem accuracy_monotone_in_distance_witness:
  "(2::rat) \<le> 5 \<and>
   (\<exists>r1 r2 a1 a2.
      flag_locationTimestamp sample_env zoneB (device ''d1'' 2) = Inr r1 \<and>
      flag_locationTimestamp sample_env zoneB (device ''d2'' 5) = Inr r2 \<and>
      field (field r1 ''location'') ''accuracy'' = JNum a1 \<and>
      field (field r2 ''location'') ''accuracy'' = JNum a2 \<and> num_le a1 a2)"
  using accuracy_monotone_in_distance
    [of zoneB 5 "device ''d1'' 2" 2 "device ''d2'' 5" 5 sample_env 3]
  by (simp add: sample_defs)

text \<open>C9: a report with no truthy flag whose location has latitude 0 or longitude 0 is
  answered with status 400, \<open>Location data is invalid\<close>.\<close>

theorem zero_coordinate_rejected:
  assumes "\<not> truthy (field body ''flag'')" and "\<not> nullish body"
    and "field (field body ''location'') ''latitude'' = JNum (Fin 0) \<or>
         field (field body ''location'') ''longitude'' = JNum (Fin 0)"
  shows "post_location E body = respond LocationInvalid"
  using assms
  by (auto simp add: post_location_def location_route_def member_def truthy_not_nullish)

theorem zero_coordinate_rejected_witness:
  "post_location sample_env (direct_report 0 2 10 [device ''d1'' 5]) = respond LocationInvalid"
  using zero_coordinate_rejected [of "direct_report 0 2 10 [device ''d1'' 5]" sample_env]
  by (simp add: sample_defs)

text \<open>C10: when the base location carries accuracy 0, the base accuracy is 20, and the
  accuracy of every record written is 20 plus the distance of its device (direct path)
  or 20 plus that distance times the field \<open>multi\<close> (flag path).\<close>

theorem zero_accuracy_is_default:
  assumes "field L ''accuracy'' = JNum (Fin 0)"
    and "field body ''devices'' = JArr ds" and "list_all device_entry ds"
    and "(\<not> truthy (field body ''flag'') \<and> field body ''location'' = L \<and>
          truthy (field L ''longitude'') \<and> truthy (field L ''latitude'')) \<or>
         (truthy (field body ''flag'') \<and> template_string E (field body ''flag'') = Inr name \<and>
          firebase_get E (''flag/'' @ name) = Inr L \<and> \<not> unprintable (field L ''multi''))"
  shows "baseAccuracy L = JNum (Fin 20) \<and>
         accuracies (post_location E body) =
           map (\<lambda>d. JNum (num_add (Fin 20)
                         (if truthy (field body ''flag'')
                          then num_mul (to_number E (field d ''distance''))
                                 (to_number E (field L ''multi''))
                          else to_number E (field d ''distance''))))
             (filter nonempty_id ds)"
proof -
  have b: "baseAccuracy L = JNum (Fin 20)" using assms(1) by (simp add: baseAccuracy_def)
  have l: "base_location L" using assms(1) by (cases L) (auto simp: base_location_def)
  from assms(4) have "accuracies (post_location E body) =
           map (\<lambda>d. JNum (num_add (Fin 20)
                         (if truthy (field body ''flag'')
                          then num_mul (to_number E (field d ''distance''))
                                 (to_number E (field L ''multi''))
                          else to_number E (field d ''distance''))))
             (filter nonempty_id ds)"
  proof
    assume "\<not> truthy (field body ''flag'') \<and> field body ''location'' = L \<and>
          truthy (field L ''longitude'') \<and> truthy (field L ''latitude'')"
    then show ?thesis
      using accuracies_direct [of body ds E] assms(2,3) l b by simp
  next
    assume "truthy (field body ''flag'') \<and> template_string E (field body ''flag'') = Inr name \<and>
          firebase_get E (''flag/'' @ name) = Inr L \<and> \<not> unprintable (field L ''multi'')"
    then show ?thesis
      using accuracies_flag [of body E name L ds] assms(2,3) l b by simp
  qed
  with b show ?thesis by simp
qed

theorem zero_accuracy_is_default_witness:
  "accuracies (post_location sample_env (direct_report 1 2 0 [device ''d1'' 5])) = [JNum (Fin 25)] \<and>
   accuracies (post_location sample_env (flag_report ''zoneC'' (JArr [device ''d1'' 2]))) =
     [JNum (Fin 26)]"
proof -
  have "accuracies (post_location sample_env (direct_report 1 2 0 [device ''d1'' 5])) =
        [JNum (Fin 25)]"
    using zero_accuracy_is_default
      [of "JObj [(''latitude'', JNum (Fin 1)), (''longitude'', JNum (Fin 2)), (''accuracy'', JNum (Fin 0))]"
          "direct_report 1 2 0 [device ''d1'' 5]" "[device ''d1'' 5]" sample_env "[]"]
    by (simp add: sample_defs device_entry_def nonempty_id_def)
  moreover have "accuracies (post_location sample_env (flag_report ''zoneC'' (JArr [device ''d1'' 2]))) =
     [JNum (Fin 26)]"
    using zero_accuracy_is_default
      [of zoneC "flag_report ''zoneC'' (JArr [device ''d1'' 2])" "[device ''d1'' 2]"
          sample_env "''zoneC''"]
    by (simp add: sample_defs device_entry_def nonempty_id_def template_string_def)
  ultimately show ?thesis by simp
qed

end
